theory Spec2Isabelle
  imports Complex_Main "HOL-Library.Multiset" "HOL-Library.Option_ord"
begin

section \<open>FinMan: the transaction controllers\<close>

text \<open>
  A shallow embedding of the six controllers that \<^verbatim>\<open>backend/Routers/Transactions.js\<close>
  routes to. Every controller is a function from the request and the two
  collections to the response and the collections afterwards. The JavaScript runtime, the date library and the document
  store are not code of the repository; the parts of them the controllers call are
  modelled below, each with a note on what it covers.
\<close>

subsection \<open>JavaScript values\<close>

text \<open>
  A number is a finite double, read as the real it denotes, or NaN. (Infinities are
  not covered.) A string is a list of code units below 256.
\<close>

datatype number = NaN | Fin real

datatype json =
    JUndefined
  | JNull
  | JBool bool
  | JNum number
  | JStr string
  | JArr "json list"
  | JObj "(string \<times> json) list"

text \<open>\<^verbatim>\<open>!v\<close> is \<open>\<not> truthy v\<close>.\<close>

fun truthy :: "json \<Rightarrow> bool" where
  "truthy JUndefined = False"
| "truthy JNull = False"
| "truthy (JBool b) = b"
| "truthy (JNum NaN) = False"
| "truthy (JNum (Fin r)) = (r \<noteq> 0)"
| "truthy (JStr s) = (s \<noteq> [])"
| "truthy (JArr xs) = True"
| "truthy (JObj kvs) = True"

fun typeof :: "json \<Rightarrow> string" where
  "typeof JUndefined = ''undefined''"
| "typeof JNull = ''object''"
| "typeof (JBool b) = ''boolean''"
| "typeof (JNum n) = ''number''"
| "typeof (JStr s) = ''string''"
| "typeof (JArr xs) = ''object''"
| "typeof (JObj kvs) = ''object''"

text \<open>\<^verbatim>\<open>v <= 0\<close> for a value whose \<open>typeof\<close> is number; a comparison with NaN is false.\<close>

fun le_zero :: "json \<Rightarrow> bool" where
  "le_zero (JNum (Fin r)) = (r \<le> 0)"
| "le_zero v = False"

text \<open>
  \<^verbatim>\<open>String.prototype.trim\<close>: the white space and line terminators of ECMAScript
  among the code units below 256 are TAB, LF, VT, FF, CR, SP and NBSP.
\<close>

definition is_white_space :: "char \<Rightarrow> bool" where
  "is_white_space c \<longleftrightarrow>
     c \<in> {CHR 0x09, CHR 0x0A, CHR 0x0B, CHR 0x0C, CHR 0x0D, CHR 0x20, CHR 0xA0}"

definition trim :: "string \<Rightarrow> string" where
  "trim s = rev (dropWhile is_white_space (rev (dropWhile is_white_space s)))"

text \<open>\<^verbatim>\<open>v.trim().length\<close>, reached only when \<open>typeof v\<close> is string.\<close>

fun trim_length :: "json \<Rightarrow> nat" where
  "trim_length (JStr s) = length (trim s)"
| "trim_length v = 0"

text \<open>
  \<^verbatim>\<open>Array.prototype.includes\<close> on an array of primitives: membership by value.
\<close>

definition includes_js :: "json list \<Rightarrow> json \<Rightarrow> bool" where
  "includes_js xs v \<longleftrightarrow> v \<in> set xs"

text \<open>\<^verbatim>\<open>Array.isArray(v) && v.length\<close>.\<close>

fun isArray :: "json \<Rightarrow> bool" where
  "isArray (JArr xs) = True"
| "isArray v = False"

fun elements :: "json \<Rightarrow> json list" where
  "elements (JArr xs) = xs"
| "elements v = []"

text \<open>A template literal prints a count in decimal.\<close>

fun digits :: "nat \<Rightarrow> string" where
  "digits n =
     (if n < 10 then [''0123456789'' ! n]
      else digits (n div 10) @ [''0123456789'' ! (n mod 10)])"

subsection \<open>The runtime and the libraries\<close>

type_synonym time = int  \<comment> \<open>milliseconds since the epoch\<close>

type_synonym oid = string  \<comment> \<open>an ObjectId, by the string its \<^verbatim>\<open>toString()\<close> gives\<close>

text \<open>
  What the cast of a request value to an ObjectId comes to: it throws a CastError,
  or it is null and names no document, or it is an ObjectId.
\<close>

datatype cast = Throws | Null | ObjectId oid

datatype exception = CastError

text \<open>
  What the controllers call in \<^verbatim>\<open>moment\<close>, in the runtime and in the driver, and
  this development does not fix:
  \<^item> \<open>moment_now\<close>: \<^verbatim>\<open>moment()\<close>, the server's clock;
  \<^item> \<open>moment_of v\<close>: \<^verbatim>\<open>moment(v)\<close>, \<open>None\<close> when \<^verbatim>\<open>isValid()\<close> is false;
  \<^item> \<open>startOf_day\<close>, \<open>endOf_day\<close>: \<^verbatim>\<open>.startOf('day')\<close>, \<^verbatim>\<open>.endOf('day')\<close>;
  \<^item> \<open>subtract_days t n\<close>: \<^verbatim>\<open>.subtract(n, "days")\<close> for a number \<open>n\<close> that is not NaN,
    \<open>None\<close> when the result is no valid date (it leaves the range of dates);
  \<^item> \<open>string_to_number\<close>, \<open>object_to_number\<close>: \<^verbatim>\<open>Number(v)\<close> on a string, and on an
    array or object;
  \<^item> \<open>date_value v\<close>: the instant the store holds for a value saved in a Date path,
    \<open>None\<close> when it holds none;
  \<^item> \<open>cast_ObjectId v\<close>: the cast of a value in a filter to an ObjectId, as the store
    does it for \<^verbatim>\<open>_id\<close> and for a reference;
  \<^item> \<open>new_ObjectId\<close>: the identifier the driver gives the next document created.
\<close>

record lib =
  moment_now :: time
  moment_of :: "json \<Rightarrow> time option"
  startOf_day :: "time \<Rightarrow> time"
  endOf_day :: "time \<Rightarrow> time"
  subtract_days :: "time \<Rightarrow> real \<Rightarrow> time option"
  string_to_number :: "string \<Rightarrow> number"
  object_to_number :: "json \<Rightarrow> number"
  date_value :: "json \<Rightarrow> time option"
  cast_ObjectId :: "json \<Rightarrow> cast"
  new_ObjectId :: oid

text \<open>\<^verbatim>\<open>Number(v)\<close>.\<close>

fun Number :: "lib \<Rightarrow> json \<Rightarrow> number" where
  "Number l JUndefined = NaN"
| "Number l JNull = Fin 0"
| "Number l (JBool b) = Fin (if b then 1 else 0)"
| "Number l (JNum n) = n"
| "Number l (JStr s) = string_to_number l s"
| "Number l (JArr xs) = object_to_number l (JArr xs)"
| "Number l (JObj kvs) = object_to_number l (JObj kvs)"

text \<open>\<^verbatim>\<open>n || 7\<close> for a number \<open>n\<close>: 0 and NaN are falsy.\<close>

fun or_7 :: "number \<Rightarrow> real" where
  "or_7 NaN = 7"
| "or_7 (Fin r) = (if r = 0 then 7 else r)"

subsection \<open>The collections\<close>

text \<open>
  Modelled from the spec: \<^verbatim>\<open>models/TransactionModel.js\<close> and
  \<^verbatim>\<open>models/UserSchema.js\<close> are missing. A Transaction has an identifier, a
  reference to the User that owns it and the six fields the controllers write; a
  User has an identifier and an ordered collection of references to Transactions.
  Identifiers and references are ObjectIds. Each of the six fields keeps the value
  it is given: no value is validated again when it is stored. A collection is the
  list of its documents in insertion order. A store operation throws when a value
  of its filter does not cast (an identifier that is no ObjectId, an invalid
  date), and the \<^verbatim>\<open>catch\<close> branch of the controller answers; otherwise it
  completes. \<^verbatim>\<open>user.save()\<close>, which the source does not always await, has taken
  effect when the controller answers.
\<close>

record transaction_doc =
  tid :: oid
  title :: json
  amount :: json
  category :: json
  description :: json
  date :: json
  user :: oid
  transactionType :: json

record user_doc =
  user_id :: oid
  transactions :: "oid list"

record db =
  Transaction :: "transaction_doc list"
  User :: "user_doc list"

text \<open>
  \<^verbatim>\<open>Model.findById(v)\<close>: \<open>v\<close> is cast to an ObjectId, and names the document with that
  identifier.
\<close>

definition User_findById :: "lib \<Rightarrow> json \<Rightarrow> db \<Rightarrow> exception + user_doc option" where
  "User_findById l v d =
     (case cast_ObjectId l v of
        Throws \<Rightarrow> Inl CastError
      | Null \<Rightarrow> Inr None
      | ObjectId i \<Rightarrow> Inr (find (\<lambda>u. user_id u = i) (User d)))"

definition Transaction_findById :: "lib \<Rightarrow> json \<Rightarrow> db \<Rightarrow> exception + transaction_doc option" where
  "Transaction_findById l v d =
     (case cast_ObjectId l v of
        Throws \<Rightarrow> Inl CastError
      | Null \<Rightarrow> Inr None
      | ObjectId i \<Rightarrow> Inr (find (\<lambda>t. tid t = i) (Transaction d)))"

text \<open>\<^verbatim>\<open>doc.save()\<close> writes the document over the stored one with its identifier.\<close>

fun put_user :: "user_doc \<Rightarrow> user_doc list \<Rightarrow> user_doc list" where
  "put_user u [] = []"
| "put_user u (x # xs) = (if user_id x = user_id u then u # xs else x # put_user u xs)"

fun put_transaction :: "transaction_doc \<Rightarrow> transaction_doc list \<Rightarrow> transaction_doc list" where
  "put_transaction t [] = []"
| "put_transaction t (x # xs) = (if tid x = tid t then t # xs else x # put_transaction t xs)"

definition user_save :: "user_doc \<Rightarrow> db \<Rightarrow> db" where
  "user_save u d = d\<lparr>User := put_user u (User d)\<rparr>"

definition transaction_save :: "transaction_doc \<Rightarrow> db \<Rightarrow> db" where
  "transaction_save t d = d\<lparr>Transaction := put_transaction t (Transaction d)\<rparr>"

subsection \<open>Requests and responses\<close>

text \<open>
  \<^verbatim>\<open>req.params.id\<close> is a string, \<^verbatim>\<open>req.body\<close> a JSON object; a property the body
  lacks reads as \<^verbatim>\<open>undefined\<close>.
\<close>

record request =
  params_id :: string
  body :: "string \<rightharpoonup> json"

definition field :: "request \<Rightarrow> string \<Rightarrow> json" where
  "field req k = (case body req k of None \<Rightarrow> JUndefined | Some v \<Rightarrow> v)"

text \<open>
  The body of a response besides \<^verbatim>\<open>success\<close>: a \<^verbatim>\<open>message\<close> that is a text of the
  controller or the \<^verbatim>\<open>err.message\<close> of an exception caught, \<^verbatim>\<open>messages\<close> with the
  \<^verbatim>\<open>err.message\<close> of an exception caught, \<^verbatim>\<open>transactions\<close>, \<^verbatim>\<open>transaction\<close>, or a
  \<^verbatim>\<open>message\<close> and a \<^verbatim>\<open>transaction\<close>.
\<close>

datatype payload =
    Message string
  | Error_message exception
  | Error_messages exception
  | TransactionList "transaction_doc list"
  | TransactionOnly transaction_doc
  | MessageTransaction string transaction_doc

record response =
  status :: nat
  success :: bool
  payload :: payload

definition respond :: "nat \<Rightarrow> bool \<Rightarrow> payload \<Rightarrow> response" where
  "respond c s p = \<lparr>status = c, success = s, payload = p\<rparr>"

subsection \<open>addTransactionController\<close>

text \<open>
  \<^verbatim>\<open>user: userId\<close> is stored as the ObjectId it casts to, which is the identifier
  of the user found.
\<close>

definition addTransactionController :: "lib \<Rightarrow> request \<Rightarrow> db \<Rightarrow> response \<times> db" where
  "addTransactionController l req d =
    (let title' = field req ''title'';
         amount' = field req ''amount'';
         description' = field req ''description'';
         date' = field req ''date'';
         category' = field req ''category'';
         userId = field req ''userId'';
         transactionType' = field req ''transactionType''
     in
     if \<not> truthy title' \<or> typeof title' \<noteq> ''string'' \<or> trim_length title' = 0 then
       (respond 400 False (Message ''Title must be a non-empty string''), d)
     else if \<not> truthy amount' \<or> typeof amount' \<noteq> ''number'' \<or> le_zero amount' then
       (respond 400 False (Message ''Amount must be a positive number''), d)
     else if \<not> truthy date' \<or> moment_of l date' = None then
       (respond 400 False (Message ''Please provide a valid date''), d)
     else if \<not> truthy category' \<or> typeof category' \<noteq> ''string'' \<or> trim_length category' = 0 then
       (respond 400 False (Message ''Category must be a non-empty string''), d)
     else if \<not> truthy transactionType'
             \<or> \<not> includes_js [JStr ''credit'', JStr ''expense''] transactionType' then
       (respond 400 False
          (Message (''Transaction type must be either 'credit' or 'expense'' @ [CHR 0x27])), d)
     else if \<not> truthy userId then
       (respond 400 False (Message ''User ID is required''), d)
     else
       (case User_findById l userId d of
          Inl err \<Rightarrow> (respond 401 False (Error_messages err), d)
        | Inr None \<Rightarrow> (respond 400 False (Message ''User not found''), d)
        | Inr (Some user') \<Rightarrow>
            (let newTransaction =
                   \<lparr>tid = new_ObjectId l, title = title', amount = amount',
                    category = category', description = description', date = date',
                    user = user_id user', transactionType = transactionType'\<rparr>;
                 d1 = d\<lparr>Transaction := Transaction d @ [newTransaction]\<rparr>;
                 user1 = user'\<lparr>transactions := transactions user' @ [tid newTransaction]\<rparr>;
                 d2 = user_save user1 d1
             in (respond 200 True (Message ''Transaction Added Successfully''), d2))))"

subsection \<open>getAllTransactionController\<close>

text \<open>
  The filter handed to \<^verbatim>\<open>Transaction.find\<close>: the owner, the type when one is asked
  for, and one of two conditions on the date or none.
\<close>

text \<open>A Date of a filter is \<open>None\<close> when it is the invalid Date.\<close>

datatype date_condition = Gte_Lte "time option" "time option" | Gt "time option"

record query =
  q_user :: json
  q_transactionType :: "json option"
  q_date :: "date_condition option"

fun invalid_date :: "date_condition \<Rightarrow> bool" where
  "invalid_date (Gte_Lte lo hi) = (lo = None \<or> hi = None)"
| "invalid_date (Gt lo) = (lo = None)"

fun date_matches :: "date_condition \<Rightarrow> time option \<Rightarrow> bool" where
  "date_matches (Gte_Lte (Some lo) (Some hi)) (Some x) = (lo \<le> x \<and> x \<le> hi)"
| "date_matches (Gt (Some lo)) (Some x) = (lo < x)"
| "date_matches c x = False"

definition matches :: "lib \<Rightarrow> query \<Rightarrow> transaction_doc \<Rightarrow> bool" where
  "matches l q t \<longleftrightarrow>
     cast_ObjectId l (q_user q) = ObjectId (user t)
     \<and> (case q_transactionType q of None \<Rightarrow> True | Some ty \<Rightarrow> transactionType t = ty)
     \<and> (case q_date q of None \<Rightarrow> True | Some c \<Rightarrow> date_matches c (date_value l (date t)))"

text \<open>
  \<^verbatim>\<open>.sort({ date: -1 })\<close>: by date, latest first, a document without a date last;
  documents with the same date keep their order.
\<close>

fun insert_desc :: "('a \<Rightarrow> 'k::linorder) \<Rightarrow> 'a \<Rightarrow> 'a list \<Rightarrow> 'a list" where
  "insert_desc k x [] = [x]"
| "insert_desc k x (y # ys) = (if k y \<le> k x then x # y # ys else y # insert_desc k x ys)"

definition sort_desc :: "('a \<Rightarrow> 'k::linorder) \<Rightarrow> 'a list \<Rightarrow> 'a list" where
  "sort_desc k xs = foldr (insert_desc k) xs []"

text \<open>
  \<^verbatim>\<open>Transaction.find(query).sort({ date: -1 })\<close> throws when the owner does not cast
  or a Date of the filter is invalid.
\<close>

definition Transaction_find :: "lib \<Rightarrow> query \<Rightarrow> db \<Rightarrow> exception + transaction_doc list" where
  "Transaction_find l q d =
     (if cast_ObjectId l (q_user q) = Throws
         \<or> (case q_date q of None \<Rightarrow> False | Some c \<Rightarrow> invalid_date c)
      then Inl CastError
      else Inr (sort_desc (\<lambda>t. date_value l (date t))
                  (filter (matches l q) (Transaction d))))"

text \<open>
  \<^verbatim>\<open>.startOf('day').toDate()\<close> and \<^verbatim>\<open>.endOf('day').toDate()\<close> of an invalid moment
  are the invalid Date. Every exception is answered by the one \<^verbatim>\<open>catch\<close> branch.
\<close>

definition getAllTransactionController :: "lib \<Rightarrow> request \<Rightarrow> db \<Rightarrow> response \<times> db" where
  "getAllTransactionController l req d =
    (let userId = field req ''userId'';
         type = field req ''type'';
         frequency = field req ''frequency'';
         startDate = field req ''startDate'';
         endDate = field req ''endDate'';
         caught = (respond 500 False
                     (Message ''Error fetching transactions. Please try again.''), d)
     in
     if \<not> truthy userId then
       (respond 400 False (Message ''User ID is required''), d)
     else
       (case User_findById l userId d of
          Inl err \<Rightarrow> caught
        | Inr None \<Rightarrow> (respond 400 False (Message ''User not found''), d)
        | Inr (Some user') \<Rightarrow>
            (let query0 = \<lparr>q_user = userId, q_transactionType = None, q_date = None\<rparr>;
                 query1 = (if type \<noteq> JStr ''all''
                           then query0\<lparr>q_transactionType := Some type\<rparr> else query0);
                 query2 =
                   (if frequency = JStr ''custom'' \<and> truthy startDate \<and> truthy endDate then
                      query1\<lparr>q_date := Some (Gte_Lte
                        (map_option (startOf_day l) (moment_of l startDate))
                        (map_option (endOf_day l) (moment_of l endDate)))\<rparr>
                    else if frequency \<noteq> JStr ''custom'' then
                      query1\<lparr>q_date := Some (Gt
                        (map_option (startOf_day l)
                           (subtract_days l (moment_now l) (or_7 (Number l frequency)))))\<rparr>
                    else query1)
             in
             case Transaction_find l query2 d of
               Inl err \<Rightarrow> caught
             | Inr transactions' \<Rightarrow> (respond 200 True (TransactionList transactions'), d))))"

subsection \<open>deleteMultipleTransactionsController\<close>

text \<open>
  \<^verbatim>\<open>Transaction.deleteMany({ _id: { $in: transactionIds }, user: userId })\<close> throws
  when an element of the array or the owner does not cast; otherwise it deletes the
  documents the filter holds of, and counts them.
\<close>

definition in_ids_and_owned :: "lib \<Rightarrow> json list \<Rightarrow> json \<Rightarrow> transaction_doc \<Rightarrow> bool" where
  "in_ids_and_owned l ids userId t \<longleftrightarrow>
     list_ex (\<lambda>v. cast_ObjectId l v = ObjectId (tid t)) ids
     \<and> cast_ObjectId l userId = ObjectId (user t)"

definition Transaction_deleteMany :: "lib \<Rightarrow> json list \<Rightarrow> json \<Rightarrow> db \<Rightarrow> exception + nat \<times> db" where
  "Transaction_deleteMany l ids userId d =
     (if list_ex (\<lambda>v. cast_ObjectId l v = Throws) ids \<or> cast_ObjectId l userId = Throws
      then Inl CastError
      else Inr (length (filter (in_ids_and_owned l ids userId) (Transaction d)),
                d\<lparr>Transaction :=
                   filter (\<lambda>t. \<not> in_ids_and_owned l ids userId t) (Transaction d)\<rparr>))"

definition deleteMultipleTransactionsController :: "lib \<Rightarrow> request \<Rightarrow> db \<Rightarrow> response \<times> db" where
  "deleteMultipleTransactionsController l req d =
    (let transactionIds = field req ''transactionIds'';
         userId = field req ''userId''
     in
     if \<not> isArray transactionIds \<or> length (elements transactionIds) = 0 then
       (respond 400 False (Message ''Please provide valid transaction IDs''), d)
     else
       (case User_findById l userId d of
          Inl err \<Rightarrow> (respond 500 False (Error_message err), d)
        | Inr None \<Rightarrow> (respond 400 False (Message ''User not found''), d)
        | Inr (Some user') \<Rightarrow>
            (case Transaction_deleteMany l (elements transactionIds) userId d of
               Inl err \<Rightarrow> (respond 500 False (Error_message err), d)
             | Inr (deletedCount, d1) \<Rightarrow>
                 if deletedCount = 0 then
                   (respond 404 False (Message ''No transactions found to delete''), d1)
                 else
                   (let user1 = user'\<lparr>transactions :=
                          filter (\<lambda>transaction. \<not> includes_js (elements transactionIds)
                                    (JStr transaction))
                            (transactions user')\<rparr>;
                        d2 = user_save user1 d1
                    in (respond 200 True
                          (Message (''Successfully deleted '' @ digits deletedCount
                                    @ '' transactions'')), d2)))))"

subsection \<open>getSingleTransactionController\<close>

definition Transaction_findOne :: "lib \<Rightarrow> json \<Rightarrow> json \<Rightarrow> db \<Rightarrow> exception + transaction_doc option" where
  "Transaction_findOne l v userId d =
     (if cast_ObjectId l v = Throws \<or> cast_ObjectId l userId = Throws then Inl CastError
      else Inr (find (\<lambda>t. cast_ObjectId l v = ObjectId (tid t)
                         \<and> cast_ObjectId l userId = ObjectId (user t))
                  (Transaction d)))"

definition getSingleTransactionController :: "lib \<Rightarrow> request \<Rightarrow> db \<Rightarrow> response \<times> db" where
  "getSingleTransactionController l req d =
    (let id = params_id req;
         userId = field req ''userId''
     in
     if id = [] \<or> \<not> truthy userId then
       (respond 400 False (Message ''Transaction ID and User ID are required''), d)
     else
       (case Transaction_findOne l (JStr id) userId d of
          Inl err \<Rightarrow> (respond 500 False (Error_message err), d)
        | Inr None \<Rightarrow> (respond 404 False (Message ''Transaction not found''), d)
        | Inr (Some transaction) \<Rightarrow> (respond 200 True (TransactionOnly transaction), d)))"

subsection \<open>deleteTransactionController\<close>

fun delete_first :: "('a \<Rightarrow> bool) \<Rightarrow> 'a list \<Rightarrow> 'a list" where
  "delete_first P [] = []"
| "delete_first P (x # xs) = (if P x then xs else x # delete_first P xs)"

definition Transaction_findByIdAndDelete ::
    "lib \<Rightarrow> json \<Rightarrow> db \<Rightarrow> exception + transaction_doc option \<times> db" where
  "Transaction_findByIdAndDelete l v d =
     (case Transaction_findById l v d of
        Inl err \<Rightarrow> Inl err
      | Inr None \<Rightarrow> Inr (None, d)
      | Inr (Some t) \<Rightarrow>
          Inr (Some t, d\<lparr>Transaction := delete_first (\<lambda>x. tid x = tid t) (Transaction d)\<rparr>))"

text \<open>
  \<^verbatim>\<open>transaction._id === transactionId\<close>: the left operand is the ObjectId of an
  element of \<^verbatim>\<open>user.transactions\<close>, an object; the right operand is the route
  parameter, a string. Strict equality converts neither operand, and an object is
  never strictly equal to a string. (The bulk delete compares
  \<^verbatim>\<open>transaction._id.toString()\<close> with the strings of the request.)
\<close>

definition strict_eq_ObjectId_string :: "oid \<Rightarrow> string \<Rightarrow> bool" where
  "strict_eq_ObjectId_string i s \<longleftrightarrow> False"

definition deleteTransactionController :: "lib \<Rightarrow> request \<Rightarrow> db \<Rightarrow> response \<times> db" where
  "deleteTransactionController l req d =
    (let transactionId = params_id req;
         userId = field req ''userId''
     in
     case User_findById l userId d of
       Inl err \<Rightarrow> (respond 401 False (Error_messages err), d)
     | Inr None \<Rightarrow> (respond 400 False (Message ''User not found''), d)
     | Inr (Some user') \<Rightarrow>
         (case Transaction_findByIdAndDelete l (JStr transactionId) d of
            Inl err \<Rightarrow> (respond 401 False (Error_messages err), d)
          | Inr (None, d1) \<Rightarrow> (respond 400 False (Message ''transaction not found''), d1)
          | Inr (Some transactionElement, d1) \<Rightarrow>
              (let transactionArr =
                     filter (\<lambda>transaction. strict_eq_ObjectId_string transaction transactionId)
                       (transactions user');
                   user1 = user'\<lparr>transactions := transactionArr\<rparr>;
                   d2 = user_save user1 d1
               in (respond 200 True (Message ''Transaction successfully deleted''), d2))))"

subsection \<open>updateTransactionController\<close>

definition updateTransactionController :: "lib \<Rightarrow> request \<Rightarrow> db \<Rightarrow> response \<times> db" where
  "updateTransactionController l req d =
    (let transactionId = params_id req;
         title' = field req ''title'';
         amount' = field req ''amount'';
         description' = field req ''description'';
         date' = field req ''date'';
         category' = field req ''category'';
         transactionType' = field req ''transactionType''
     in
     case Transaction_findById l (JStr transactionId) d of
       Inl err \<Rightarrow> (respond 401 False (Error_messages err), d)
     | Inr None \<Rightarrow> (respond 400 False (Message ''transaction not found''), d)
     | Inr (Some transactionElement) \<Rightarrow>
         (let e1 = (if truthy title' then transactionElement\<lparr>title := title'\<rparr>
                    else transactionElement);
              e2 = (if truthy description' then e1\<lparr>description := description'\<rparr> else e1);
              e3 = (if truthy amount' then e2\<lparr>amount := amount'\<rparr> else e2);
              e4 = (if truthy category' then e3\<lparr>category := category'\<rparr> else e3);
              e5 = (if truthy transactionType' then e4\<lparr>transactionType := transactionType'\<rparr>
                    else e4);
              e6 = (if truthy date' then e5\<lparr>date := date'\<rparr> else e5);
              d1 = transaction_save e6 d
          in (respond 200 True (MessageTransaction ''Transaction Updated Successfully'' e6),
              d1)))"

section \<open>What the claims speak of\<close>

subsection \<open>Readings of a response and of a stored document\<close>

text \<open>The transactions a response lists.\<close>

fun listed :: "response \<Rightarrow> transaction_doc list" where
  "listed r = (case payload r of TransactionList ts \<Rightarrow> ts | _ \<Rightarrow> [])"

text \<open>The type filter of \<open>list\<close>: the sentinel "all" lets every type pass.\<close>

definition type_passes :: "json \<Rightarrow> transaction_doc \<Rightarrow> bool" where
  "type_passes ty t \<longleftrightarrow> ty = JStr ''all'' \<or> transactionType t = ty"



definition latest_first :: "lib \<Rightarrow> transaction_doc list \<Rightarrow> bool" where
  "latest_first l ts \<longleftrightarrow>
     sorted_wrt (\<lambda>a b. date_value l (date b) \<le> date_value l (date a)) ts"


text \<open>An amount that is not a number, or is a number and not positive.\<close>

fun not_positive_number :: "json \<Rightarrow> bool" where
  "not_positive_number (JNum (Fin r)) = (r \<le> 0)"
| "not_positive_number v = True"

text \<open>
  What \<open>update\<close> makes of a stored transaction: a field of the request that is
  truthy replaces the stored one.
\<close>

definition updated :: "request \<Rightarrow> transaction_doc \<Rightarrow> transaction_doc" where
  "updated req t =
     t\<lparr>title := (if truthy (field req ''title'') then field req ''title'' else title t),
       description := (if truthy (field req ''description'') then field req ''description''
                       else description t),
       amount := (if truthy (field req ''amount'') then field req ''amount'' else amount t),
       category := (if truthy (field req ''category'') then field req ''category''
                    else category t),
       transactionType := (if truthy (field req ''transactionType'')
                           then field req ''transactionType'' else transactionType t),
       date := (if truthy (field req ''date'') then field req ''date'' else date t)\<rparr>"

text \<open>The same store with every transaction handed to another owner.\<close>

definition reown :: "(oid \<Rightarrow> oid) \<Rightarrow> db \<Rightarrow> db" where
  "reown owner d = d\<lparr>Transaction := map (\<lambda>t. t\<lparr>user := owner (tid t)\<rparr>) (Transaction d)\<rparr>"

text \<open>
  A transaction has both the identifier and the owner that a request of \<open>getOne\<close>
  names. An element of the array of \<open>deleteMany\<close> is malformed: it does not cast to
  an ObjectId.
\<close>

definition has_both :: "lib \<Rightarrow> request \<Rightarrow> transaction_doc \<Rightarrow> bool" where
  "has_both l req t \<longleftrightarrow>
     cast_ObjectId l (JStr (params_id req)) = ObjectId (tid t)
     \<and> cast_ObjectId l (field req ''userId'') = ObjectId (user t)"

definition malformed :: "lib \<Rightarrow> json \<Rightarrow> bool" where
  "malformed l v \<longleftrightarrow> cast_ObjectId l v = Throws"

subsection \<open>The validation of \<open>create\<close>, as the specification lists it\<close>

text \<open>
  Six checks, each the response it fails with or \<open>None\<close>:
  the title is non-empty text after trimming; the amount is present, numeric and
  strictly positive; the date is present and parses to a valid date; the category
  is non-empty text after trimming; the type is credit or expense; the owner is
  present and resolves to a User. The last one fails in three ways: the owner is
  absent, the lookup throws because the owner is no ObjectId, or it finds no User.
\<close>

definition check_title :: "request \<Rightarrow> response option" where
  "check_title req =
     (case field req ''title'' of
        JStr s \<Rightarrow> if trim s = [] then
                    Some (respond 400 False (Message ''Title must be a non-empty string''))
                  else None
      | _ \<Rightarrow> Some (respond 400 False (Message ''Title must be a non-empty string'')))"

definition check_amount :: "request \<Rightarrow> response option" where
  "check_amount req =
     (case field req ''amount'' of
        JNum (Fin r) \<Rightarrow> if 0 < r then None
                        else Some (respond 400 False (Message ''Amount must be a positive number''))
      | _ \<Rightarrow> Some (respond 400 False (Message ''Amount must be a positive number'')))"

definition check_date :: "lib \<Rightarrow> request \<Rightarrow> response option" where
  "check_date l req =
     (if truthy (field req ''date'') \<and> moment_of l (field req ''date'') \<noteq> None then None
      else Some (respond 400 False (Message ''Please provide a valid date'')))"

definition check_category :: "request \<Rightarrow> response option" where
  "check_category req =
     (case field req ''category'' of
        JStr s \<Rightarrow> if trim s = [] then
                    Some (respond 400 False (Message ''Category must be a non-empty string''))
                  else None
      | _ \<Rightarrow> Some (respond 400 False (Message ''Category must be a non-empty string'')))"

definition check_transactionType :: "request \<Rightarrow> response option" where
  "check_transactionType req =
     (if field req ''transactionType'' = JStr ''credit''
         \<or> field req ''transactionType'' = JStr ''expense'' then None
      else Some (respond 400 False
        (Message (''Transaction type must be either 'credit' or 'expense'' @ [CHR 0x27]))))"

definition check_ownerId :: "lib \<Rightarrow> request \<Rightarrow> db \<Rightarrow> response option" where
  "check_ownerId l req d =
     (if \<not> truthy (field req ''userId'') then
        Some (respond 400 False (Message ''User ID is required''))
      else
        (case User_findById l (field req ''userId'') d of
           Inl err \<Rightarrow> Some (respond 401 False (Error_messages err))
         | Inr None \<Rightarrow> Some (respond 400 False (Message ''User not found''))
         | Inr (Some u) \<Rightarrow> None))"

definition validation :: "lib \<Rightarrow> request \<Rightarrow> db \<Rightarrow> response option list" where
  "validation l req d =
     [check_title req, check_amount req, check_date l req, check_category req,
      check_transactionType req, check_ownerId l req d]"

fun first_failure :: "response option list \<Rightarrow> response option" where
  "first_failure [] = None"
| "first_failure (Some r # cs) = Some r"
| "first_failure (None # cs) = first_failure cs"

subsection \<open>A server and a store for the examples\<close>

text \<open>
  The examples run on a server in the zone UTC whose clock reads
  2024-06-15 12:30:00. Of the inputs \<^verbatim>\<open>moment\<close> and the store take for a date the
  examples use a number of milliseconds, of the strings \<^verbatim>\<open>Number\<close> converts they
  use decimal numerals, and of the values that cast to an ObjectId they use strings
  of 24 hexadecimal digits, in either case; \<open>utc\<close> answers those as the libraries
  do, and takes every other input for an invalid date, for NaN or for a value that
  does not cast. A date is valid within 8,640,000,000,000,000 milliseconds of the
  epoch.
\<close>

definition abs_round :: "real \<Rightarrow> int" where
  "abs_round r = (if r < 0 then - \<lfloor>- r + 1 / 2\<rfloor> else \<lfloor>r + 1 / 2\<rfloor>)"

definition valid_date :: "time \<Rightarrow> time option" where
  "valid_date t =
     (if - 8640000000000000 \<le> t \<and> t \<le> 8640000000000000 then Some t else None)"

fun timestamp :: "json \<Rightarrow> time option" where
  "timestamp (JNum (Fin r)) = valid_date (if 0 \<le> r then \<lfloor>r\<rfloor> else \<lceil>r\<rceil>)"
| "timestamp v = None"

fun decimal :: "nat \<Rightarrow> string \<Rightarrow> nat option" where
  "decimal n [] = Some n"
| "decimal n (c # cs) =
     (if (48::nat) \<le> of_char c \<and> (of_char c :: nat) \<le> 57
      then decimal (10 * n + (of_char c - 48)) cs else None)"

definition numeral_to_number :: "string \<Rightarrow> number" where
  "numeral_to_number s =
     (if trim s = [] then Fin 0
      else case decimal 0 (trim s) of None \<Rightarrow> NaN | Some n \<Rightarrow> Fin (real n))"

definition hex_digit :: "char \<Rightarrow> bool" where
  "hex_digit c \<longleftrightarrow> c \<in> set ''0123456789abcdefABCDEF''"

definition lower_hex :: "char \<Rightarrow> char" where
  "lower_hex c = (case map_of (zip ''ABCDEF'' ''abcdef'') c of None \<Rightarrow> c | Some x \<Rightarrow> x)"

fun hex_ObjectId :: "json \<Rightarrow> cast" where
  "hex_ObjectId JUndefined = Null"
| "hex_ObjectId JNull = Null"
| "hex_ObjectId (JStr s) =
     (if length s = 24 \<and> list_all hex_digit s then ObjectId (map lower_hex s) else Throws)"
| "hex_ObjectId v = Throws"

definition utc :: lib where
  "utc = \<lparr>moment_now = 1718454600000,
          moment_of = timestamp,
          startOf_day = (\<lambda>t. t - t mod 86400000),
          endOf_day = (\<lambda>t. t - t mod 86400000 + 86399999),
          subtract_days = (\<lambda>t n. valid_date (t - abs_round n * 86400000)),
          string_to_number = numeral_to_number,
          object_to_number = (\<lambda>v. NaN),
          date_value = timestamp,
          cast_ObjectId = hex_ObjectId,
          new_ObjectId = ''0000000000000000000000a9''\<rparr>"

text \<open>
  Two users. \<open>u1\<close> owns an expense of 2024-06-12 12:00 and a credit of
  2024-06-15 09:00; \<open>u2\<close> owns an expense of 2024-06-14 08:00.
\<close>

definition id_t1 :: oid where "id_t1 = ''0000000000000000000000a1''"

definition id_t2 :: oid where "id_t2 = ''0000000000000000000000a2''"

definition id_t3 :: oid where "id_t3 = ''0000000000000000000000a3''"

definition id_u1 :: oid where "id_u1 = ''0000000000000000000000b1''"

definition id_u2 :: oid where "id_u2 = ''0000000000000000000000b2''"

definition t1 :: transaction_doc where
  "t1 = \<lparr>tid = id_t1, title = JStr ''rent'', amount = JNum (Fin 900),
         category = JStr ''home'', description = JUndefined,
         date = JNum (Fin 1718193600000), user = id_u1,
         transactionType = JStr ''expense''\<rparr>"

definition t2 :: transaction_doc where
  "t2 = \<lparr>tid = id_t2, title = JStr ''pay'', amount = JNum (Fin 2000),
         category = JStr ''job'', description = JStr ''june'',
         date = JNum (Fin 1718442000000), user = id_u1,
         transactionType = JStr ''credit''\<rparr>"

definition t3 :: transaction_doc where
  "t3 = \<lparr>tid = id_t3, title = JStr ''food'', amount = JNum (Fin 40),
         category = JStr ''home'', description = JUndefined,
         date = JNum (Fin 1718352000000), user = id_u2,
         transactionType = JStr ''expense''\<rparr>"

definition u1 :: user_doc where
  "u1 = \<lparr>user_id = id_u1, transactions = [id_t1, id_t2]\<rparr>"

definition u2 :: user_doc where
  "u2 = \<lparr>user_id = id_u2, transactions = [id_t3]\<rparr>"

definition store :: db where
  "store = \<lparr>Transaction = [t1, t2, t3], User = [u1, u2]\<rparr>"

definition request_of :: "string \<Rightarrow> (string \<times> json) list \<Rightarrow> request" where
  "request_of i kvs = \<lparr>params_id = i, body = map_of kvs\<rparr>"

text \<open>The requests of the examples.\<close>

definition add_minus_5 :: request where
  "add_minus_5 = request_of []
     [(''title'', JStr ''book''), (''amount'', JNum (Fin (- 5))),
      (''date'', JStr ''yesterday''), (''category'', JStr ''fun''),
      (''transactionType'', JStr ''expense''), (''userId'', JStr id_u1)]"

definition add_for_nobody :: request where
  "add_for_nobody = request_of []
     [(''title'', JStr ''book''), (''amount'', JNum (Fin 5)),
      (''date'', JNum (Fin 1718193600000)), (''category'', JStr ''fun''),
      (''transactionType'', JStr ''expense''), (''userId'', JStr ''zz'')]"







definition list_custom_open :: request where
  "list_custom_open = request_of []
     [(''userId'', JStr id_u1), (''type'', JStr ''all''), (''frequency'', JStr ''custom'')]"

definition delete_t1_t3 :: request where
  "delete_t1_t3 = request_of []
     [(''transactionIds'', JArr [JStr ''0000000000000000000000A1'', JStr id_t3]),
      (''userId'', JStr id_u1)]"

definition delete_t1_zz :: request where
  "delete_t1_zz = request_of []
     [(''transactionIds'', JArr [JStr id_t1, JStr ''zz'']), (''userId'', JStr id_u1)]"

definition get_t3_as_u1 :: request where
  "get_t3_as_u1 = request_of id_t3 [(''userId'', JStr id_u1)]"

definition get_zz_as_u1 :: request where
  "get_zz_as_u1 = request_of ''zz'' [(''userId'', JStr id_u1)]"

definition delete_t1 :: request where
  "delete_t1 = request_of id_t1 [(''userId'', JStr id_u1)]"

definition update_amount_50 :: request where
  "update_amount_50 = request_of id_t1 [(''amount'', JNum (Fin 50))]"

section \<open>Properties\<close>

subsection \<open>Auxiliary facts\<close>

lemmas example_defs =
  utc_def store_def t1_def t2_def t3_def u1_def u2_def id_t1_def id_t2_def id_t3_def
  id_u1_def id_u2_def request_of_def field_def respond_def User_findById_def
  Transaction_findById_def hex_digit_def lower_hex_def valid_date_def

lemma title_condition:
  "(\<not> truthy v \<or> typeof v \<noteq> ''string'' \<or> trim_length v = 0)
   \<longleftrightarrow> (case v of JStr s \<Rightarrow> trim s = [] | _ \<Rightarrow> True)"
  by (cases v) (auto simp: trim_def)

lemma amount_condition:
  "(\<not> truthy v \<or> typeof v \<noteq> ''number'' \<or> le_zero v) \<longleftrightarrow> not_positive_number v"
  by (cases v rule: not_positive_number.cases) auto

lemma mset_insert_desc: "mset (insert_desc k x xs) = add_mset x (mset xs)"
  by (induction xs) auto

lemma mset_sort_desc: "mset (sort_desc k xs) = mset xs"
  unfolding sort_desc_def by (induction xs) (auto simp: mset_insert_desc)

lemma set_insert_desc: "set (insert_desc k x xs) = insert x (set xs)"
  by (induction xs) auto

lemma sorted_insert_desc:
  "sorted_wrt (\<lambda>a b. k b \<le> k a) xs \<Longrightarrow> sorted_wrt (\<lambda>a b. k b \<le> k a) (insert_desc k x xs)"
  by (induction xs) (auto simp: set_insert_desc)

lemma sorted_sort_desc: "sorted_wrt (\<lambda>a b. k b \<le> k a) (sort_desc k xs)"
  unfolding sort_desc_def by (induction xs) (auto intro: sorted_insert_desc)

text \<open>A user found by a value is the user with the identifier the value casts to.\<close>

lemma User_found_cast:
  "User_findById l v d = Inr (Some u) \<Longrightarrow> cast_ObjectId l v = ObjectId (user_id u)"
  by (auto simp: User_findById_def find_Some_iff split: cast.splits)

lemma Transaction_found_cast:
  "Transaction_findById l v d = Inr (Some t) \<Longrightarrow> cast_ObjectId l v = ObjectId (tid t)"
  by (auto simp: Transaction_findById_def find_Some_iff split: cast.splits)

text \<open>
  What \<open>list\<close> answers for a user found and a filter whose Dates are valid: the
  documents the filter holds of, latest first.
\<close>

lemma Transaction_find_result:
  assumes "cast_ObjectId l (q_user q) = ObjectId i"
    and "case q_date q of None \<Rightarrow> True | Some c \<Rightarrow> \<not> invalid_date c"
  shows "\<exists>ts. Transaction_find l q d = Inr ts
    \<and> mset ts = mset (filter (matches l q) (Transaction d)) \<and> latest_first l ts"
  using assms unfolding Transaction_find_def latest_first_def
  by (auto simp: mset_sort_desc sorted_sort_desc split: option.splits)

lemma update_found:
  assumes "Transaction_findById l (JStr (params_id req)) d = Inr (Some t)"
  shows "updateTransactionController l req d
         = (respond 200 True
              (MessageTransaction ''Transaction Updated Successfully'' (updated req t)),
            d\<lparr>Transaction := put_transaction (updated req t) (Transaction d)\<rparr>)"
  using assms
  by (simp add: updateTransactionController_def Let_def updated_def transaction_save_def)

lemma find_map:
  "(\<And>x. P (f x) = Q x) \<Longrightarrow> find P (map f xs) = map_option f (find Q xs)"
  by (induction xs) auto

lemma findById_reown:
  "Transaction_findById l v (reown owner d)
   = map_sum id (map_option (\<lambda>t. t\<lparr>user := owner (tid t)\<rparr>)) (Transaction_findById l v d)"
  unfolding Transaction_findById_def reown_def by (simp add: find_map split: cast.splits)

lemma put_transaction_reown:
  "put_transaction (x\<lparr>user := owner (tid x)\<rparr>) (map (\<lambda>t. t\<lparr>user := owner (tid t)\<rparr>) xs)
   = map (\<lambda>t. t\<lparr>user := owner (tid t)\<rparr>) (put_transaction x xs)"
  by (induction xs) auto

lemma updated_user: "updated req (t\<lparr>user := o'\<rparr>) = (updated req t)\<lparr>user := o'\<rparr>"
  by (simp add: updated_def)

lemma tid_updated: "tid (updated req t) = tid t"
  by (simp add: updated_def)

lemma filter_none_counted:
  "length (filter P xs) = 0 \<Longrightarrow> filter (\<lambda>t. \<not> P t) xs = xs"
  by (induction xs) (auto split: if_splits)

lemma find_no_match: "\<not> list_ex P xs \<Longrightarrow> find P xs = None"
  by (simp add: find_None_iff list_ex_iff)

text \<open>The count a message prints reads back as the count.\<close>

lemma decimal_snoc:
  "decimal a (xs @ [c]) =
     (case decimal a xs of
        None \<Rightarrow> None
      | Some m \<Rightarrow> if (48::nat) \<le> of_char c \<and> (of_char c :: nat) \<le> 57
                  then Some (10 * m + (of_char c - 48)) else None)"
  by (induction xs arbitrary: a) auto

lemma digit_code: "n < 10 \<Longrightarrow> (of_char (''0123456789'' ! n) :: nat) = 48 + n"
proof -
  assume "n < 10"
  then have "n \<in> {0, 1, 2, 3, 4, 5, 6, 7, 8, 9}" by auto
  then show ?thesis by auto
qed

lemma digits_read_back: "decimal 0 (digits n) = Some n"
proof (induction n rule: digits.induct)
  case (1 n)
  show ?case
  proof (cases "n < 10")
    case True
    then show ?thesis using digit_code[OF True] by (subst digits.simps) simp
  next
    case False
    have m: "n mod 10 < 10" by simp
    from False 1 have ih: "decimal 0 (digits (n div 10)) = Some (n div 10)" by simp
    show ?thesis
      using False ih digit_code[OF m]
      by (subst digits.simps) (simp add: decimal_snoc)
  qed
qed

text \<open>
  The response a check of \<open>create\<close> fails with tells which check it is: the checks
  are numbered from 0 in their order.
\<close>

lemma failing_check_told:
  assumes "i < 6" and "validation l req d ! i = Some r"
  shows "i = (if payload r = Message ''Title must be a non-empty string'' then 0
              else if payload r = Message ''Amount must be a positive number'' then 1
              else if payload r = Message ''Please provide a valid date'' then 2
              else if payload r = Message ''Category must be a non-empty string'' then 3
              else if payload r = Message
                (''Transaction type must be either 'credit' or 'expense'' @ [CHR 0x27]) then 4
              else 5)"
proof -
  from assms(1) have "i = 0 \<or> i = 1 \<or> i = 2 \<or> i = 3 \<or> i = 4 \<or> i = 5"
    by arith
  then show ?thesis
  proof (elim disjE)
    assume "i = 0"
    with assms(2) show ?thesis
      by (auto simp: validation_def check_title_def respond_def
          split: json.splits if_splits)
  next
    assume "i = 1"
    with assms(2) show ?thesis
      by (auto simp: validation_def check_amount_def respond_def
          split: json.splits number.splits if_splits)
  next
    assume "i = 2"
    with assms(2) show ?thesis
      by (auto simp: validation_def check_date_def respond_def split: if_splits)
  next
    assume "i = 3"
    with assms(2) show ?thesis
      by (auto simp: validation_def check_category_def respond_def
          split: json.splits if_splits)
  next
    assume "i = 4"
    with assms(2) show ?thesis
      by (auto simp: validation_def check_transactionType_def respond_def split: if_splits)
  next
    assume "i = 5"
    with assms(2) show ?thesis
      by (auto simp: validation_def check_ownerId_def respond_def
          split: if_splits sum.splits option.splits)
  qed
qed

subsection \<open>create\<close>

text \<open>
  Claim C5. A create request whose amount is not a number, or is a number and not
  positive (such as -5), is answered with a validation error, status 400 and the
  message of the title check or of the amount check, and leaves both collections
  as they were: no Transaction is created and no User is changed.
\<close>

theorem create_rejects_bad_amount:
  assumes "not_positive_number (field req ''amount'')"
  shows "status (fst (addTransactionController l req d)) = 400
       \<and> success (fst (addTransactionController l req d)) = False
       \<and> payload (fst (addTransactionController l req d))
           \<in> {Message ''Title must be a non-empty string'',
              Message ''Amount must be a positive number''}
       \<and> snd (addTransactionController l req d) = d"
  using assms amount_condition[of "field req ''amount''"]
  by (simp add: addTransactionController_def Let_def respond_def)

theorem create_rejects_bad_amount_witness:
  "not_positive_number (field add_minus_5 ''amount'')
   \<and> field add_minus_5 ''amount'' = JNum (Fin (- 5))
   \<and> status (fst (addTransactionController utc add_minus_5 store)) = 400
   \<and> snd (addTransactionController utc add_minus_5 store) = store"
proof -
  have h: "not_positive_number (field add_minus_5 ''amount'')"
    by (simp add: add_minus_5_def example_defs)
  have v: "field add_minus_5 ''amount'' = JNum (Fin (- 5))"
    by (simp add: add_minus_5_def example_defs)
  from create_rejects_bad_amount[OF h, of utc store] h v show ?thesis
    by blast
qed

text \<open>
  Claim C8. The answer of create is that of the first failing check in the order
  title, amount, date, category, transactionType, ownerId: the response of that
  check, whatever the later fields hold, and the collections unchanged. Only when
  no check fails does create answer 200 and store a new Transaction. A response
  that one check fails with is the response of no other check, in this request or
  in any other: each failure has a message of its own.
\<close>

theorem create_first_failure_wins:
  "(case first_failure (validation l req d) of
      Some r \<Rightarrow> addTransactionController l req d = (r, d) \<and> success r = False
    | None \<Rightarrow> fst (addTransactionController l req d)
                 = respond 200 True (Message ''Transaction Added Successfully'')
               \<and> butlast (Transaction (snd (addTransactionController l req d)))
                   = Transaction d
               \<and> tid (last (Transaction (snd (addTransactionController l req d))))
                   = new_ObjectId l)
   \<and> (i < 6 \<and> j < 6 \<and> validation l req d ! i = Some r'
        \<and> validation l' req' d' ! j = Some r' \<longrightarrow> i = j)"
proof -
  have t: "check_title req =
      (if \<not> truthy (field req ''title'') \<or> typeof (field req ''title'') \<noteq> ''string''
          \<or> trim_length (field req ''title'') = 0
       then Some (respond 400 False (Message ''Title must be a non-empty string''))
       else None)"
    unfolding title_condition check_title_def by (simp split: json.splits)
  have c: "check_category req =
      (if \<not> truthy (field req ''category'') \<or> typeof (field req ''category'') \<noteq> ''string''
          \<or> trim_length (field req ''category'') = 0
       then Some (respond 400 False (Message ''Category must be a non-empty string''))
       else None)"
    unfolding title_condition check_category_def by (simp split: json.splits)
  have a: "check_amount req =
      (if \<not> truthy (field req ''amount'') \<or> typeof (field req ''amount'') \<noteq> ''number''
          \<or> le_zero (field req ''amount'')
       then Some (respond 400 False (Message ''Amount must be a positive number''))
       else None)"
    unfolding amount_condition check_amount_def
    by (cases "field req ''amount''" rule: not_positive_number.cases) auto
  have ty: "check_transactionType req =
      (if \<not> truthy (field req ''transactionType'')
          \<or> \<not> includes_js [JStr ''credit'', JStr ''expense''] (field req ''transactionType'')
       then Some (respond 400 False
         (Message (''Transaction type must be either 'credit' or 'expense'' @ [CHR 0x27])))
       else None)"
    unfolding check_transactionType_def includes_js_def by auto
  have dt: "check_date l req =
      (if \<not> truthy (field req ''date'') \<or> moment_of l (field req ''date'') = None
       then Some (respond 400 False (Message ''Please provide a valid date'')) else None)"
    unfolding check_date_def by auto
  have first: "case first_failure (validation l req d) of
      Some r \<Rightarrow> addTransactionController l req d = (r, d) \<and> success r = False
    | None \<Rightarrow> fst (addTransactionController l req d)
                 = respond 200 True (Message ''Transaction Added Successfully'')
               \<and> butlast (Transaction (snd (addTransactionController l req d)))
                   = Transaction d
               \<and> tid (last (Transaction (snd (addTransactionController l req d))))
                   = new_ObjectId l"
    unfolding validation_def t c a ty dt check_ownerId_def
    by (simp add: addTransactionController_def Let_def user_save_def respond_def
        split: option.splits sum.splits)
  have own: "i = j"
    if "i < 6" "j < 6" "validation l req d ! i = Some r'" "validation l' req' d' ! j = Some r'"
    using failing_check_told[OF that(1) that(3)] failing_check_told[OF that(2) that(4)]
    by simp
  from first own show ?thesis
    by blast
qed

theorem create_first_failure_wins_witness:
  "validation utc add_minus_5 store
     = [None, Some (respond 400 False (Message ''Amount must be a positive number'')),
        Some (respond 400 False (Message ''Please provide a valid date'')),
        None, None, None]
   \<and> addTransactionController utc add_minus_5 store
     = (respond 400 False (Message ''Amount must be a positive number''), store)
   \<and> validation utc add_for_nobody store
     = [None, None, None, None, None, Some (respond 401 False (Error_messages CastError))]
   \<and> addTransactionController utc add_for_nobody store
     = (respond 401 False (Error_messages CastError), store)"
proof -
  have v: "validation utc add_minus_5 store
     = [None, Some (respond 400 False (Message ''Amount must be a positive number'')),
        Some (respond 400 False (Message ''Please provide a valid date'')),
        None, None, None]"
    by (simp add: validation_def check_title_def check_amount_def check_date_def
        check_category_def check_transactionType_def check_ownerId_def trim_def
        is_white_space_def add_minus_5_def example_defs)
  have w: "validation utc add_for_nobody store
     = [None, None, None, None, None, Some (respond 401 False (Error_messages CastError))]"
    by (simp add: validation_def check_title_def check_amount_def check_date_def
        check_category_def check_transactionType_def check_ownerId_def trim_def
        is_white_space_def add_for_nobody_def example_defs)
  from create_first_failure_wins[of utc add_minus_5 store]
    create_first_failure_wins[of utc add_for_nobody store] v w
  show ?thesis
    by simp
qed

subsection \<open>list\<close>








text \<open>
  Claim C10. For an owner that resolves to a User and the frequency "custom" with
  the start date or the end date absent or otherwise falsy, list does not fail: it
  answers 200 with exactly the owner's transactions that pass the type filter,
  whatever their dates, latest first, and leaves the collections as they were.
\<close>

theorem list_custom_without_dates:
  assumes "truthy (field req ''userId'')"
    and "User_findById l (field req ''userId'') d = Inr (Some u)"
    and "field req ''frequency'' = JStr ''custom''"
    and "\<not> truthy (field req ''startDate'') \<or> \<not> truthy (field req ''endDate'')"
  shows "status (fst (getAllTransactionController l req d)) = 200
    \<and> success (fst (getAllTransactionController l req d))
    \<and> payload (fst (getAllTransactionController l req d))
        = TransactionList (listed (fst (getAllTransactionController l req d)))
    \<and> mset (listed (fst (getAllTransactionController l req d)))
        = mset (filter
            (\<lambda>t. user t = user_id u \<and> type_passes (field req ''type'') t)
            (Transaction d))
    \<and> latest_first l (listed (fst (getAllTransactionController l req d)))
    \<and> snd (getAllTransactionController l req d) = d"
proof -
  let ?q = "\<lparr>q_user = field req ''userId'',
             q_transactionType =
               (if field req ''type'' \<noteq> JStr ''all'' then Some (field req ''type'') else None),
             q_date = None\<rparr>"
  have r: "getAllTransactionController l req d
           = (case Transaction_find l ?q d of
                Inl err \<Rightarrow>
                  (respond 500 False
                     (Message ''Error fetching transactions. Please try again.''), d)
              | Inr ts \<Rightarrow> (respond 200 True (TransactionList ts), d))"
    using assms by (auto simp: getAllTransactionController_def Let_def)
  note cast = User_found_cast[OF assms(2)]
  have "\<exists>ts. Transaction_find l ?q d = Inr ts
      \<and> mset ts = mset (filter (matches l ?q) (Transaction d)) \<and> latest_first l ts"
    using cast by (intro Transaction_find_result[where i = "user_id u"]) simp_all
  then obtain ts where ts: "Transaction_find l ?q d = Inr ts"
    "mset ts = mset (filter (matches l ?q) (Transaction d))" "latest_first l ts"
    by blast
  have m: "matches l ?q
           = (\<lambda>t. user t = user_id u \<and> type_passes (field req ''type'') t)"
    using cast by (auto simp: matches_def type_passes_def fun_eq_iff)
  from ts m show ?thesis
    unfolding r by (simp add: respond_def)
qed

theorem list_custom_without_dates_witness:
  "truthy (field list_custom_open ''userId'')
   \<and> User_findById utc (field list_custom_open ''userId'') store = Inr (Some u1)
   \<and> field list_custom_open ''frequency'' = JStr ''custom''
   \<and> field list_custom_open ''startDate'' = JUndefined
   \<and> field list_custom_open ''endDate'' = JUndefined
   \<and> status (fst (getAllTransactionController utc list_custom_open store)) = 200
   \<and> mset (listed (fst (getAllTransactionController utc list_custom_open store)))
       = mset (filter
           (\<lambda>t. user t = user_id u1
                \<and> type_passes (field list_custom_open ''type'') t)
           (Transaction store))"
proof -
  have h1: "truthy (field list_custom_open ''userId'')"
    by (simp add: list_custom_open_def example_defs)
  have h2: "User_findById utc (field list_custom_open ''userId'') store = Inr (Some u1)"
    by (simp add: list_custom_open_def example_defs)
  have h3: "field list_custom_open ''frequency'' = JStr ''custom''"
    by (simp add: list_custom_open_def example_defs)
  have h4: "\<not> truthy (field list_custom_open ''startDate'')
            \<or> \<not> truthy (field list_custom_open ''endDate'')"
    by (simp add: list_custom_open_def example_defs)
  have a: "field list_custom_open ''startDate'' = JUndefined"
    by (simp add: list_custom_open_def example_defs)
  have b: "field list_custom_open ''endDate'' = JUndefined"
    by (simp add: list_custom_open_def example_defs)
  from list_custom_without_dates[OF h1 h2 h3 h4] h1 h2 h3 a b show ?thesis
    by blast
qed

subsection \<open>getOne\<close>

text \<open>
  Claim C6 as it is stated does not hold of an identifier that is no ObjectId: no
  Transaction has the identifier \<open>zz\<close>, and getOne for it and the owner \<open>u1\<close> fails
  with the error 500, not with NotFound.
\<close>

theorem getOne_malformed_id_counterexample:
  "params_id get_zz_as_u1 = ''zz''
   \<and> field get_zz_as_u1 ''userId'' = JStr id_u1
   \<and> \<not> list_ex (\<lambda>t. tid t = ''zz'') (Transaction store)
   \<and> \<not> list_ex (has_both utc get_zz_as_u1) (Transaction store)
   \<and> getSingleTransactionController utc get_zz_as_u1 store
       = (respond 500 False (Error_message CastError), store)"
  by (simp add: getSingleTransactionController_def Transaction_findOne_def has_both_def
      Let_def get_zz_as_u1_def example_defs)

text \<open>
  Claim C6, as the code has it. When no Transaction has both the identifier and the
  owner of the request, getOne changes nothing and answers the same in any two
  stores: a store where the identifier belongs to a Transaction of another user
  and a store where no Transaction has it are answered alike. With the identifier
  and the owner both supplied, the answer is 404, "Transaction not found", when
  both are well-formed, and the error 500 when one of them is no ObjectId.
\<close>

theorem getOne_hides_foreign_transactions:
  assumes "\<not> list_ex (has_both l req) (Transaction d)"
    and "\<not> list_ex (has_both l req) (Transaction d')"
  shows "(params_id req \<noteq> [] \<and> truthy (field req ''userId'')
          \<and> \<not> malformed l (JStr (params_id req)) \<and> \<not> malformed l (field req ''userId'')
          \<longrightarrow> getSingleTransactionController l req d
                = (respond 404 False (Message ''Transaction not found''), d))
    \<and> (params_id req \<noteq> [] \<and> truthy (field req ''userId'')
          \<and> (malformed l (JStr (params_id req)) \<or> malformed l (field req ''userId''))
          \<longrightarrow> getSingleTransactionController l req d
                = (respond 500 False (Error_message CastError), d))
    \<and> fst (getSingleTransactionController l req d')
        = fst (getSingleTransactionController l req d)
    \<and> snd (getSingleTransactionController l req d) = d"
  using assms find_no_match[of "has_both l req" "Transaction d"]
    find_no_match[of "has_both l req" "Transaction d'"]
  unfolding has_both_def
  by (auto simp: getSingleTransactionController_def Transaction_findOne_def malformed_def
      Let_def)

theorem getOne_hides_foreign_transactions_witness:
  "params_id get_t3_as_u1 \<noteq> [] \<and> truthy (field get_t3_as_u1 ''userId'')
   \<and> cast_ObjectId utc (JStr (params_id get_t3_as_u1)) = ObjectId (tid t3)
   \<and> cast_ObjectId utc (field get_t3_as_u1 ''userId'') = ObjectId (user_id u1)
   \<and> list_ex (\<lambda>t. tid t = tid t3) (Transaction store)
   \<and> \<not> list_ex (has_both utc get_t3_as_u1) (Transaction store)
   \<and> \<not> list_ex (\<lambda>t. tid t = tid t3) (Transaction (store\<lparr>Transaction := [t1, t2]\<rparr>))
   \<and> getSingleTransactionController utc get_t3_as_u1 store
        = (respond 404 False (Message ''Transaction not found''), store)
   \<and> fst (getSingleTransactionController utc get_t3_as_u1 (store\<lparr>Transaction := [t1, t2]\<rparr>))
        = fst (getSingleTransactionController utc get_t3_as_u1 store)"
proof -
  have h1: "params_id get_t3_as_u1 \<noteq> []"
    by (simp add: get_t3_as_u1_def example_defs)
  have h2: "truthy (field get_t3_as_u1 ''userId'')"
    by (simp add: get_t3_as_u1_def example_defs)
  have c1: "cast_ObjectId utc (JStr (params_id get_t3_as_u1)) = ObjectId (tid t3)"
    by (simp add: get_t3_as_u1_def example_defs)
  have c2: "cast_ObjectId utc (field get_t3_as_u1 ''userId'') = ObjectId (user_id u1)"
    by (simp add: get_t3_as_u1_def example_defs)
  have e: "list_ex (\<lambda>t. tid t = tid t3) (Transaction store)"
    by (simp add: example_defs)
  have h3: "\<not> list_ex (has_both utc get_t3_as_u1) (Transaction store)"
    unfolding has_both_def c1 c2 by (simp add: example_defs)
  have n: "\<not> list_ex (\<lambda>t. tid t = tid t3) (Transaction (store\<lparr>Transaction := [t1, t2]\<rparr>))"
    by (simp add: example_defs)
  have h4: "\<not> list_ex (has_both utc get_t3_as_u1)
                 (Transaction (store\<lparr>Transaction := [t1, t2]\<rparr>))"
    unfolding has_both_def c1 c2 by (simp add: example_defs)
  have w: "\<not> malformed utc (JStr (params_id get_t3_as_u1))
           \<and> \<not> malformed utc (field get_t3_as_u1 ''userId'')"
    unfolding malformed_def c1 c2 by simp
  from getOne_hides_foreign_transactions[OF h3 h4] h1 h2 c1 c2 e h3 n w show ?thesis
    by blast
qed

subsection \<open>update\<close>

text \<open>
  Claim C4. When a Transaction with the identifier exists, update answers 200 with
  the stored document in which each of title, description, amount, category,
  transactionType and date is the supplied value if that value is truthy and the
  prior value if it is absent or falsy; the identifier and the owner stay. The
  document is written back in place. With only the amount 50 supplied, the amount
  becomes 50 and nothing else changes.
\<close>

theorem update_overwrites_truthy_fields:
  assumes "Transaction_findById l (JStr (params_id req)) d = Inr (Some t)"
  shows "updateTransactionController l req d
         = (respond 200 True
              (MessageTransaction ''Transaction Updated Successfully'' (updated req t)),
            d\<lparr>Transaction := put_transaction (updated req t) (Transaction d)\<rparr>)
    \<and> title (updated req t)
        = (if truthy (field req ''title'') then field req ''title'' else title t)
    \<and> description (updated req t)
        = (if truthy (field req ''description'') then field req ''description''
           else description t)
    \<and> amount (updated req t)
        = (if truthy (field req ''amount'') then field req ''amount'' else amount t)
    \<and> category (updated req t)
        = (if truthy (field req ''category'') then field req ''category'' else category t)
    \<and> transactionType (updated req t)
        = (if truthy (field req ''transactionType'') then field req ''transactionType''
           else transactionType t)
    \<and> date (updated req t)
        = (if truthy (field req ''date'') then field req ''date'' else date t)
    \<and> tid (updated req t) = tid t \<and> user (updated req t) = user t
    \<and> (body req = [''amount'' \<mapsto> JNum (Fin 50)]
        \<longrightarrow> updated req t = t\<lparr>amount := JNum (Fin 50)\<rparr>)"
  using update_found[OF assms] by (auto simp: updated_def field_def)

theorem update_overwrites_truthy_fields_witness:
  "Transaction_findById utc (JStr (params_id update_amount_50)) store = Inr (Some t1)
   \<and> body update_amount_50 = [''amount'' \<mapsto> JNum (Fin 50)]
   \<and> updateTransactionController utc update_amount_50 store
       = (respond 200 True
            (MessageTransaction ''Transaction Updated Successfully''
               (t1\<lparr>amount := JNum (Fin 50)\<rparr>)),
          store\<lparr>Transaction := [t1\<lparr>amount := JNum (Fin 50)\<rparr>, t2, t3]\<rparr>)"
proof -
  have h: "Transaction_findById utc (JStr (params_id update_amount_50)) store = Inr (Some t1)"
    by (simp add: update_amount_50_def example_defs)
  have b: "body update_amount_50 = [''amount'' \<mapsto> JNum (Fin 50)]"
    by (simp add: update_amount_50_def example_defs)
  have p: "put_transaction (t1\<lparr>amount := JNum (Fin 50)\<rparr>) (Transaction store)
           = [t1\<lparr>amount := JNum (Fin 50)\<rparr>, t2, t3]"
    by (simp add: example_defs)
  from update_overwrites_truthy_fields[OF h] b p h show ?thesis
    by simp
qed

text \<open>
  Claim C9. The update reads no owner. When a Transaction with the identifier
  exists, update answers 200 with the updated document and writes it over the
  stored one, whoever owns it: the answer and the store do not depend on a userId
  in the request, and in the store with every transaction handed to other owners
  the update succeeds as well and does to the documents what it does in the given
  store.
\<close>

theorem update_ignores_ownership:
  assumes "Transaction_findById l (JStr (params_id req)) d = Inr (Some t)"
  shows "status (fst (updateTransactionController l req d)) = 200
    \<and> success (fst (updateTransactionController l req d))
    \<and> payload (fst (updateTransactionController l req d))
        = MessageTransaction ''Transaction Updated Successfully'' (updated req t)
    \<and> snd (updateTransactionController l req d)
        = d\<lparr>Transaction := put_transaction (updated req t) (Transaction d)\<rparr>
    \<and> Transaction_findById l (JStr (params_id req)) (snd (updateTransactionController l req d))
        = Inr (Some (updated req t))
    \<and> updateTransactionController l (req\<lparr>body := (body req)(''userId'' := v)\<rparr>) d
        = updateTransactionController l req d
    \<and> status (fst (updateTransactionController l req (reown owner d))) = 200
    \<and> snd (updateTransactionController l req (reown owner d))
        = reown owner (snd (updateTransactionController l req d))"
proof -
  have 1: "updateTransactionController l (req\<lparr>body := (body req)(''userId'' := v)\<rparr>) d
        = updateTransactionController l req d"
    by (simp add: updateTransactionController_def field_def)
  have f: "Transaction_findById l (JStr (params_id req)) (reown owner d)
           = Inr (Some (t\<lparr>user := owner (tid t)\<rparr>))"
    using assms by (simp add: findById_reown)
  have 2: "snd (updateTransactionController l req (reown owner d))
        = reown owner (snd (updateTransactionController l req d))"
    unfolding update_found[OF f] update_found[OF assms] updated_user
    using put_transaction_reown[where x = "updated req t" and owner = owner
        and xs = "Transaction d"]
    by (simp add: reown_def tid_updated)
  have g: "find (\<lambda>x. tid x = i) (put_transaction t' xs) = Some t'"
    if "find (\<lambda>x. tid x = i) xs = Some t0" "tid t' = i" for i t' t0 xs
    using that by (induction xs) (auto split: if_splits)
  have 3: "Transaction_findById l (JStr (params_id req))
             (d\<lparr>Transaction := put_transaction (updated req t) (Transaction d)\<rparr>)
           = Inr (Some (updated req t))"
    using assms Transaction_found_cast[OF assms]
      g[of "tid t" "Transaction d" t "updated req t"]
    by (auto simp: Transaction_findById_def tid_updated split: cast.splits)
  show ?thesis
    using 1 2 3 update_found[OF f] update_found[OF assms] by (simp add: respond_def)
qed

theorem update_ignores_ownership_witness:
  "Transaction_findById utc (JStr (params_id update_amount_50)) store = Inr (Some t1)
   \<and> user t1 = id_u1
   \<and> status (fst (updateTransactionController utc update_amount_50 store)) = 200
   \<and> snd (updateTransactionController utc update_amount_50 store)
       = store\<lparr>Transaction := [t1\<lparr>amount := JNum (Fin 50)\<rparr>, t2, t3]\<rparr>
   \<and> updateTransactionController utc
        (update_amount_50\<lparr>body := (body update_amount_50)(''userId'' := Some (JStr id_u2))\<rparr>)
        store
       = updateTransactionController utc update_amount_50 store
   \<and> status (fst (updateTransactionController utc update_amount_50
                     (reown (\<lambda>i. id_u2) store))) = 200"
proof -
  have h: "Transaction_findById utc (JStr (params_id update_amount_50)) store = Inr (Some t1)"
    by (simp add: update_amount_50_def example_defs)
  have o: "user t1 = id_u1"
    by (simp add: example_defs)
  have p: "put_transaction (updated update_amount_50 t1) (Transaction store)
           = [t1\<lparr>amount := JNum (Fin 50)\<rparr>, t2, t3]"
    by (simp add: updated_def update_amount_50_def example_defs)
  from update_ignores_ownership[OF h, of "Some (JStr id_u2)" "\<lambda>i. id_u2"] h o p
  show ?thesis
    by simp
qed

subsection \<open>deleteMany\<close>

text \<open>
  Claim C2 as it is stated does not hold of an array with a malformed element:
  for the array of \<open>t1\<close> and \<open>zz\<close> and the owner \<open>u1\<close>, who owns \<open>t1\<close>, deleteMany
  fails with the error 500 and deletes nothing.
\<close>

theorem deleteMany_malformed_id_counterexample:
  "field delete_t1_zz ''transactionIds'' = JArr [JStr id_t1, JStr ''zz'']
   \<and> User_findById utc (field delete_t1_zz ''userId'') store = Inr (Some u1)
   \<and> cast_ObjectId utc (JStr id_t1) = ObjectId (tid t1)
   \<and> user t1 = user_id u1
   \<and> Transaction store = [t1, t2, t3]
   \<and> deleteMultipleTransactionsController utc delete_t1_zz store
       = (respond 500 False (Error_message CastError), store)"
  by (simp add: deleteMultipleTransactionsController_def Transaction_deleteMany_def
      Let_def delete_t1_zz_def example_defs)

text \<open>
  Claim C2, as the code has it. For a non-empty array and an owner that resolves to
  a User: when every element of the array is well-formed, deleteMany deletes
  exactly the Transactions whose identifier is in the array and whose owner is the
  given one, and no other; when there is none it answers 404 and changes nothing,
  and otherwise it answers 200 and reports their number. When an element is
  malformed, it answers with the error 500 and changes nothing.
\<close>

theorem deleteMany_scoped_by_owner:
  assumes "field req ''transactionIds'' = JArr ids" and "ids \<noteq> []"
    and "User_findById l (field req ''userId'') d = Inr (Some u)"
  shows "(list_ex (malformed l) ids
          \<longrightarrow> deleteMultipleTransactionsController l req d
                = (respond 500 False (Error_message CastError), d))
    \<and> (\<not> list_ex (malformed l) ids
        \<longrightarrow> Transaction (snd (deleteMultipleTransactionsController l req d))
              = filter (\<lambda>t. \<not> (list_ex (\<lambda>v. cast_ObjectId l v = ObjectId (tid t)) ids
                                \<and> user t = user_id u))
                  (Transaction d)
          \<and> (length (filter (\<lambda>t. list_ex (\<lambda>v. cast_ObjectId l v = ObjectId (tid t)) ids
                                  \<and> user t = user_id u) (Transaction d)) = 0
              \<longrightarrow> deleteMultipleTransactionsController l req d
                    = (respond 404 False (Message ''No transactions found to delete''), d))
          \<and> (length (filter (\<lambda>t. list_ex (\<lambda>v. cast_ObjectId l v = ObjectId (tid t)) ids
                                  \<and> user t = user_id u) (Transaction d)) \<noteq> 0
              \<longrightarrow> fst (deleteMultipleTransactionsController l req d)
                    = respond 200 True (Message (''Successfully deleted ''
                        @ digits (length (filter
                            (\<lambda>t. list_ex (\<lambda>v. cast_ObjectId l v = ObjectId (tid t)) ids
                                 \<and> user t = user_id u) (Transaction d)))
                        @ '' transactions''))))"
proof -
  note cast = User_found_cast[OF assms(3)]
  have p: "in_ids_and_owned l ids (field req ''userId'')
           = (\<lambda>t. list_ex (\<lambda>v. cast_ObjectId l v = ObjectId (tid t)) ids
                  \<and> user t = user_id u)"
    using cast by (auto simp: in_ids_and_owned_def fun_eq_iff)
  have m: "list_ex (malformed l) ids = list_ex (\<lambda>v. cast_ObjectId l v = Throws) ids"
    by (simp add: malformed_def[abs_def])
  show ?thesis
    using assms cast
      filter_none_counted[of "\<lambda>t. list_ex (\<lambda>v. cast_ObjectId l v = ObjectId (tid t)) ids
                                 \<and> user t = user_id u" "Transaction d"]
    unfolding m
    by (auto simp: deleteMultipleTransactionsController_def Transaction_deleteMany_def
        Let_def p user_save_def)
qed

theorem deleteMany_scoped_by_owner_witness:
  "field delete_t1_t3 ''transactionIds'' = JArr [JStr ''0000000000000000000000A1'', JStr id_t3]
   \<and> User_findById utc (field delete_t1_t3 ''userId'') store = Inr (Some u1)
   \<and> filter (\<lambda>t. list_ex (\<lambda>v. cast_ObjectId utc v = ObjectId (tid t))
                    [JStr ''0000000000000000000000A1'', JStr id_t3]
                 \<and> user t = user_id u1) (Transaction store) = [t1]
   \<and> Transaction (snd (deleteMultipleTransactionsController utc delete_t1_t3 store)) = [t2, t3]
   \<and> fst (deleteMultipleTransactionsController utc delete_t1_t3 store)
       = respond 200 True (Message ''Successfully deleted 1 transactions'')"
proof -
  have h1: "field delete_t1_t3 ''transactionIds''
            = JArr [JStr ''0000000000000000000000A1'', JStr id_t3]"
    by (simp add: delete_t1_t3_def example_defs)
  have h2: "[JStr ''0000000000000000000000A1'', JStr id_t3] \<noteq> []"
    by simp
  have h3: "User_findById utc (field delete_t1_t3 ''userId'') store = Inr (Some u1)"
    by (simp add: delete_t1_t3_def example_defs)
  have w: "\<not> list_ex (malformed utc) [JStr ''0000000000000000000000A1'', JStr id_t3]"
    by (simp add: malformed_def example_defs)
  have f: "filter (\<lambda>t. list_ex (\<lambda>v. cast_ObjectId utc v = ObjectId (tid t))
                    [JStr ''0000000000000000000000A1'', JStr id_t3]
                 \<and> user t = user_id u1) (Transaction store) = [t1]"
    by (simp add: example_defs)
  have g: "filter (\<lambda>t. \<not> (list_ex (\<lambda>v. cast_ObjectId utc v = ObjectId (tid t))
                    [JStr ''0000000000000000000000A1'', JStr id_t3]
                 \<and> user t = user_id u1)) (Transaction store) = [t2, t3]"
    by (simp add: example_defs)
  from deleteMany_scoped_by_owner[OF h1 h2 h3] w h1 h3 show ?thesis
    unfolding f g by simp
qed

subsection \<open>deleteOne\<close>

text \<open>
  Claim C1 asks that deleteOne leave the owner's references as they were, less the
  deleted identifier. The code keeps the references that its filter holds of, and
  the filter holds of none: in the example store, where \<open>u1\<close> refers to \<open>t1\<close> and
  \<open>t2\<close>, deleting \<open>t1\<close> for \<open>u1\<close> deletes the Transaction and leaves \<open>u1\<close> with no
  reference at all, where the claim asks for the reference to \<open>t2\<close>.
\<close>

theorem deleteOne_drops_other_references:
  "User_findById utc (field delete_t1 ''userId'') store = Inr (Some u1)
   \<and> Transaction_findById utc (JStr (params_id delete_t1)) store = Inr (Some t1)
   \<and> transactions u1 = [id_t1, id_t2]
   \<and> removeAll (params_id delete_t1) (transactions u1) = [id_t2]
   \<and> deleteTransactionController utc delete_t1 store
       = (respond 200 True (Message ''Transaction successfully deleted''),
          \<lparr>Transaction = [t2, t3], User = [u1\<lparr>transactions := []\<rparr>, u2]\<rparr>)"
  by (simp add: deleteTransactionController_def Transaction_findByIdAndDelete_def
      strict_eq_ObjectId_string_def user_save_def Let_def delete_t1_def example_defs)

end
